theory Spec2Isabelle
  imports Main
begin

section \<open>Values, exceptions and configuration\<close>

text \<open>
  This theory embeds \<^verbatim>\<open>dbsync.py\<close>, the synchronisation of a PostGIS schema pair with
  a Mergin Maps project. The program is a sequence of calls to collaborators (the
  file system, the \<^verbatim>\<open>geodiff\<close> executable, the database, the Mergin Maps client);
  the embedding keeps every call, in the source's order, and takes the collaborators'
  behaviour as a parameter.
\<close>

text \<open>JSON values, as \<^verbatim>\<open>json.load\<close> returns them and \<^verbatim>\<open>json.dumps\<close> takes them. A dict is an
  association list in insertion order; Python's \<^verbatim>\<open>None\<close> is \<open>JNull\<close>.\<close>

datatype json =
    JNull
  | JBool bool
  | JNum int
  | JStr string
  | JList "json list"
  | JObj "(string \<times> json) list"

text \<open>The exceptions the program raises, catches or lets through. \<open>PyError\<close> stands for
  every other Python exception (\<^verbatim>\<open>OSError\<close>, \<^verbatim>\<open>KeyError\<close>, \<^verbatim>\<open>TypeError\<close>, ...), which no
  handler of the program catches.\<close>

datatype exn =
    DbSyncError string
  | ClientError string
  | LoginError string
  | ConfigError string
  | PsycopgError string
  | PyError string

text \<open>\<^verbatim>\<open>subprocess.CompletedProcess\<close>: the exit status and the bytes read from stderr
  (a \<open>char\<close> is one byte).\<close>

record completed_process =
  returncode :: int
  stderr :: string

text \<open>\<^verbatim>\<open>MerginProject.metadata\<close>, the two keys the program reads.\<close>

record metadata =
  md_name :: string
  md_version :: string

text \<open>The client's change report \<^verbatim>\<open>{'added': [...], 'updated': [...], 'removed': [...]}\<close>;
  each file is held by its path.\<close>

record changes =
  added :: "string list"
  updated :: "string list"
  removed :: "string list"

text \<open>The server's answer about a project: its version and its files.\<close>

record project_info =
  pi_version :: string
  pi_files :: "string list"

text \<open>One entry of \<^verbatim>\<open>config.connections\<close>, and the global \<^verbatim>\<open>config\<close> object.\<close>

record conn_cfg =
  driver :: string
  conn_info :: string
  base :: string
  modified :: string
  mergin_project :: string
  sync_file :: string

record config =
  working_dir :: string
  geodiff_exe :: string
  mergin_url :: string
  mergin_username :: string
  mergin_password :: "string option"
  connections :: "conn_cfg list"

section \<open>The collaborators\<close>

text \<open>
  The collaborators act on a world \<open>'w\<close> that the program never inspects. A query
  returns a result (or raises); a command also returns the world it leaves behind.
  \<open>validate_config\<close> belongs to the program's \<^verbatim>\<open>config\<close> module and
  \<open>dbsync_version\<close> to its \<^verbatim>\<open>version\<close> module; \<open>str_cmd\<close>,
  \<open>str_changes\<close>, \<open>str_json\<close>, \<open>json_dumps\<close> and \<open>format_summary\<close> are Python's
  \<^verbatim>\<open>str\<close>, \<^verbatim>\<open>json.dumps\<close> and \<^verbatim>\<open>str.format\<close>. The database holds a schema's comment as
  the JSON value its text denotes, \<open>JNull\<close> when there is no comment or its text does
  not parse.
\<close>

record 'w env =
  os_path_exists :: "string \<Rightarrow> 'w \<Rightarrow> bool"
  os_path_getsize :: "string \<Rightarrow> 'w \<Rightarrow> exn + nat"
  json_load :: "string \<Rightarrow> 'w \<Rightarrow> exn + json"
  os_remove :: "string \<Rightarrow> 'w \<Rightarrow> (exn + unit) \<times> 'w"
  shutil_copy :: "string \<Rightarrow> string \<Rightarrow> 'w \<Rightarrow> (exn + unit) \<times> 'w"
  shutil_rmtree :: "string \<Rightarrow> 'w \<Rightarrow> (exn + unit) \<times> 'w"
  gettempdir :: "string"
  random_choices :: "'w \<Rightarrow> string \<times> 'w"
  subprocess_run :: "string list \<Rightarrow> 'w \<Rightarrow> (exn + completed_process) \<times> 'w"
  psycopg2_connect :: "string \<Rightarrow> 'w \<Rightarrow> exn + unit"
  pg_namespace_exists :: "string \<Rightarrow> string \<Rightarrow> 'w \<Rightarrow> exn + bool"
  obj_description :: "string \<Rightarrow> string \<Rightarrow> 'w \<Rightarrow> exn + json"
  comment_on_schema :: "string \<Rightarrow> string \<Rightarrow> json \<Rightarrow> 'w \<Rightarrow> (exn + unit) \<times> 'w"
  mp_geodiff :: "string \<Rightarrow> 'w \<Rightarrow> exn + bool"
  mp_metadata :: "string \<Rightarrow> 'w \<Rightarrow> exn + metadata"
  mp_get_push_changes :: "string \<Rightarrow> 'w \<Rightarrow> exn + changes"
  mp_get_pull_changes :: "string \<Rightarrow> string list \<Rightarrow> 'w \<Rightarrow> exn + changes"
  mc_login :: "config \<Rightarrow> 'w \<Rightarrow> exn + unit"
  mc_get_projects_by_names :: "string list \<Rightarrow> 'w \<Rightarrow> exn + (string \<times> project_info) list"
  mc_project_info :: "string \<Rightarrow> string \<Rightarrow> 'w \<Rightarrow> exn + project_info"
  mc_project_status :: "string \<Rightarrow> 'w \<Rightarrow> exn + changes \<times> changes"
  mc_pull_project :: "string \<Rightarrow> 'w \<Rightarrow> (exn + unit) \<times> 'w"
  mc_push_project :: "string \<Rightarrow> 'w \<Rightarrow> (exn + unit) \<times> 'w"
  mc_download_project :: "string \<Rightarrow> string \<Rightarrow> json option \<Rightarrow> 'w \<Rightarrow> (exn + unit) \<times> 'w"
  getpass :: "string \<Rightarrow> 'w \<Rightarrow> string"
  validate_config :: "config \<Rightarrow> exn + unit"
  dbsync_version :: "string"
  str_cmd :: "string list \<Rightarrow> string"
  str_changes :: "changes \<Rightarrow> string"
  str_json :: "json \<Rightarrow> string"
  json_dumps :: "json \<Rightarrow> string"
  format_summary :: "json \<Rightarrow> exn + string"

text \<open>Every call to a collaborator is recorded, with what it returned or the exception it
  raised.\<close>

datatype call =
    OsPathExists string
  | OsPathGetsize string
  | JsonLoad string
  | OsRemove string
  | ShutilCopy string string
  | ShutilRmtree string
  | RandomChoices
  | SubprocessRun "string list"
  | Psycopg2Connect string
  | PgNamespaceExists string string
  | ObjDescription string string
  | CommentOnSchema string string json
  | MpGeodiff string
  | MpMetadata string
  | MpGetPushChanges string
  | MpGetPullChanges string
  | McLogin
  | McGetProjectsByNames "string list"
  | McProjectInfo string string
  | McProjectStatus string
  | McPullProject string
  | McPushProject string
  | McDownloadProject string string "json option"
  | Getpass

text \<open>What a call returned.\<close>

datatype result =
    RNone
  | RBool bool
  | RNat nat
  | RString string
  | RJson json
  | RProc completed_process
  | RMeta metadata
  | RChanges changes
  | RStatus "changes \<times> changes"
  | RProjects "(string \<times> project_info) list"
  | RInfo project_info

datatype event = Done call result | Failed call exn

record 'w state =
  world :: 'w
  trace :: "event list"
  stdout :: "string list"

type_synonym ('w, 'a) prog = "'w state \<Rightarrow> (exn + 'a) \<times> 'w state"

definition ret :: "'a \<Rightarrow> ('w, 'a) prog" where
  "ret x s = (Inr x, s)"

definition throw :: "exn \<Rightarrow> ('w, 'a) prog" where
  "throw e s = (Inl e, s)"

definition bnd :: "('w, 'a) prog \<Rightarrow> ('a \<Rightarrow> ('w, 'b) prog) \<Rightarrow> ('w, 'b) prog" where
  "bnd m f s = (case m s of (Inl e, s1) \<Rightarrow> (Inl e, s1) | (Inr x, s1) \<Rightarrow> f x s1)"

definition thn :: "('w, 'a) prog \<Rightarrow> ('w, 'b) prog \<Rightarrow> ('w, 'b) prog" where
  "thn m n = bnd m (\<lambda>_. n)"

definition lift :: "exn + 'a \<Rightarrow> ('w, 'a) prog" where
  "lift r s = (r, s)"

definition print :: "string \<Rightarrow> ('w, unit) prog" where
  "print line s = (Inr (), s\<lparr>stdout := stdout s @ [line]\<rparr>)"

definition unit_result :: "unit \<Rightarrow> result" where
  "unit_result u = RNone"

definition logged :: "call \<Rightarrow> ('a \<Rightarrow> result) \<Rightarrow> exn + 'a \<Rightarrow> event" where
  "logged c tag r = (case r of Inl e \<Rightarrow> Failed c e | Inr x \<Rightarrow> Done c (tag x))"

definition query :: "call \<Rightarrow> ('a \<Rightarrow> result) \<Rightarrow> ('w \<Rightarrow> exn + 'a) \<Rightarrow> ('w, 'a) prog" where
  "query c tag f s = (let r = f (world s) in (r, s\<lparr>trace := trace s @ [logged c tag r]\<rparr>))"

definition command ::
  "call \<Rightarrow> ('a \<Rightarrow> result) \<Rightarrow> ('w \<Rightarrow> (exn + 'a) \<times> 'w) \<Rightarrow> ('w, 'a) prog" where
  "command c tag f s =
     (case f (world s) of
        (r, w) \<Rightarrow> (r, s\<lparr>world := w, trace := trace s @ [logged c tag r]\<rparr>))"


definition except :: "('w, 'a) prog \<Rightarrow> (exn \<Rightarrow> ('w, 'a) prog option) \<Rightarrow> ('w, 'a) prog" where
  "except m h s =
     (case m s of
        (Inl e, s1) \<Rightarrow> (case h e of None \<Rightarrow> (Inl e, s1) | Some k \<Rightarrow> k s1)
      | (Inr x, s1) \<Rightarrow> (Inr x, s1))"

section \<open>Python's operations on the values the program handles\<close>

text \<open>\<^verbatim>\<open>os.path.join\<close> of two components (POSIX).\<close>

definition path_join :: "string \<Rightarrow> string \<Rightarrow> string" where
  "path_join a b =
     (if b \<noteq> [] \<and> hd b = CHR ''/'' then b
      else if a = [] \<or> last a = CHR ''/'' then a @ b
      else a @ ''/'' @ b)"

text \<open>\<^verbatim>\<open>str.split(sep)\<close> for a one-character separator.\<close>

fun split_on :: "char \<Rightarrow> string \<Rightarrow> string list" where
  "split_on c [] = [[]]"
| "split_on c (x # xs) =
     (if x = c then [] # split_on c xs
      else (case split_on c xs of [] \<Rightarrow> [[x]] | y # ys \<Rightarrow> (x # y) # ys))"

text \<open>\<^verbatim>\<open>conn_cfg.mergin_project.split("/")[1]\<close>.\<close>

definition project_name_of :: "conn_cfg \<Rightarrow> exn + string" where
  "project_name_of cc =
     (case split_on (CHR ''/'') (mergin_project cc) of
        _ # p # _ \<Rightarrow> Inr p
      | _ \<Rightarrow> Inl (PyError ''IndexError''))"

text \<open>Truth value, \<^verbatim>\<open>in\<close>, subscription by a string key, \<^verbatim>\<open>len\<close> and iteration.\<close>

fun py_truthy :: "json \<Rightarrow> bool" where
  "py_truthy JNull = False"
| "py_truthy (JBool b) = b"
| "py_truthy (JNum n) = (n \<noteq> 0)"
| "py_truthy (JStr s) = (s \<noteq> [])"
| "py_truthy (JList xs) = (xs \<noteq> [])"
| "py_truthy (JObj kvs) = (kvs \<noteq> [])"

fun is_substring :: "string \<Rightarrow> string \<Rightarrow> bool" where
  "is_substring k [] = (k = [])"
| "is_substring k (c # cs) = (take (length k) (c # cs) = k \<or> is_substring k cs)"

fun py_in :: "string \<Rightarrow> json \<Rightarrow> exn + bool" where
  "py_in k (JObj kvs) = Inr (k \<in> set (map fst kvs))"
| "py_in k (JList xs) = Inr (JStr k \<in> set xs)"
| "py_in k (JStr s) = Inr (is_substring k s)"
| "py_in k _ = Inl (PyError ''TypeError'')"

fun py_getitem :: "json \<Rightarrow> string \<Rightarrow> exn + json" where
  "py_getitem (JObj kvs) k =
     (case map_of kvs k of None \<Rightarrow> Inl (PyError ''KeyError'') | Some v \<Rightarrow> Inr v)"
| "py_getitem _ k = Inl (PyError ''TypeError'')"

fun py_len :: "json \<Rightarrow> exn + nat" where
  "py_len (JList xs) = Inr (length xs)"
| "py_len (JObj kvs) = Inr (length kvs)"
| "py_len (JStr s) = Inr (length s)"
| "py_len _ = Inl (PyError ''TypeError'')"

fun py_iter :: "json \<Rightarrow> exn + json list" where
  "py_iter (JList xs) = Inr xs"
| "py_iter (JObj kvs) = Inr (map (\<lambda>kv. JStr (fst kv)) kvs)"
| "py_iter (JStr s) = Inr (map (\<lambda>c. JStr [c]) s)"
| "py_iter _ = Inl (PyError ''TypeError'')"

text \<open>\<^verbatim>\<open>str\<close> of a JSON value: a string is itself.\<close>

definition py_str :: "'w env \<Rightarrow> json \<Rightarrow> string" where
  "py_str env j = (case j of JStr s \<Rightarrow> s | _ \<Rightarrow> str_json env j)"

text \<open>\<^verbatim>\<open>bytes.decode()\<close>: strict UTF-8. The bytes are well formed when every code point
  is encoded in its shortest form, none is a surrogate and none is above U+10FFFF; the
  text is held as these bytes, and any other input raises \<^verbatim>\<open>UnicodeDecodeError\<close>.\<close>

definition continuation :: "nat \<Rightarrow> bool" where
  "continuation b = (128 \<le> b \<and> b \<le> 191)"

fun utf8_valid :: "nat list \<Rightarrow> bool" where
  "utf8_valid [] = True"
| "utf8_valid [b0] = (b0 < 128)"
| "utf8_valid [b0, b1] =
     (if b0 < 128 then utf8_valid [b1]
      else 194 \<le> b0 \<and> b0 \<le> 223 \<and> continuation b1)"
| "utf8_valid [b0, b1, b2] =
     (if b0 < 128 then utf8_valid [b1, b2]
      else if 194 \<le> b0 \<and> b0 \<le> 223 then continuation b1 \<and> utf8_valid [b2]
      else if b0 = 224 then 160 \<le> b1 \<and> b1 \<le> 191 \<and> continuation b2
      else if b0 = 237 then 128 \<le> b1 \<and> b1 \<le> 159 \<and> continuation b2
      else 225 \<le> b0 \<and> b0 \<le> 239 \<and> continuation b1 \<and> continuation b2)"
| "utf8_valid (b0 # b1 # b2 # b3 # bs) =
     (if b0 < 128 then utf8_valid (b1 # b2 # b3 # bs)
      else if 194 \<le> b0 \<and> b0 \<le> 223 then continuation b1 \<and> utf8_valid (b2 # b3 # bs)
      else if b0 = 224
      then 160 \<le> b1 \<and> b1 \<le> 191 \<and> continuation b2 \<and> utf8_valid (b3 # bs)
      else if b0 = 237
      then 128 \<le> b1 \<and> b1 \<le> 159 \<and> continuation b2 \<and> utf8_valid (b3 # bs)
      else if 225 \<le> b0 \<and> b0 \<le> 239
      then continuation b1 \<and> continuation b2 \<and> utf8_valid (b3 # bs)
      else if b0 = 240
      then 144 \<le> b1 \<and> b1 \<le> 191 \<and> continuation b2 \<and> continuation b3 \<and> utf8_valid bs
      else if b0 = 244
      then 128 \<le> b1 \<and> b1 \<le> 143 \<and> continuation b2 \<and> continuation b3 \<and> utf8_valid bs
      else 241 \<le> b0 \<and> b0 \<le> 243 \<and> continuation b1 \<and> continuation b2
           \<and> continuation b3 \<and> utf8_valid bs)"

definition decode :: "string \<Rightarrow> exn + string" where
  "decode bytes =
     (if utf8_valid (map of_char bytes) then Inr bytes
      else Inl (PyError ''UnicodeDecodeError''))"

text \<open>\<^verbatim>\<open>d['added'] or d['updated'] or d['removed']\<close>.\<close>

definition pending :: "changes \<Rightarrow> bool" where
  "pending d = (added d \<noteq> [] \<or> updated d \<noteq> [] \<or> removed d \<noteq> [])"

section \<open>Checks of the environment\<close>

definition path_exists :: "'w env \<Rightarrow> string \<Rightarrow> ('w, bool) prog" where
  "path_exists env p = query (OsPathExists p) RBool (\<lambda>w. Inr (os_path_exists env p w))"

definition check_has_working_dir :: "'w env \<Rightarrow> string \<Rightarrow> ('w, unit) prog" where
  "check_has_working_dir env work_path =
     bnd (path_exists env work_path) (\<lambda>there.
     if \<not> there
     then throw (DbSyncError (''The project working directory does not exist: '' @ work_path))
     else
     bnd (path_exists env (path_join work_path ''.mergin'')) (\<lambda>there.
     if \<not> there
     then throw (DbSyncError
       (''The project working directory does not seem to contain Mergin Maps project: ''
          @ work_path))
     else ret ()))"

definition check_has_sync_file :: "'w env \<Rightarrow> string \<Rightarrow> ('w, unit) prog" where
  "check_has_sync_file env file_path =
     bnd (path_exists env file_path) (\<lambda>there.
     if \<not> there
     then throw (DbSyncError (''The output GPKG file does not exist: '' @ file_path))
     else ret ())"

definition check_schema_exists :: "'w env \<Rightarrow> string \<Rightarrow> string \<Rightarrow> ('w, bool) prog" where
  "check_schema_exists env conn schema_name =
     query (PgNamespaceExists conn schema_name) RBool (pg_namespace_exists env conn schema_name)"

text \<open>\<open>check_has_password\<close> stores the password it asked for in the configuration, which
  the embedding returns.\<close>

definition check_has_password :: "'w env \<Rightarrow> config \<Rightarrow> ('w, config) prog" where
  "check_has_password env config =
     (if mergin_password config = None
      then bnd (query Getpass RString (\<lambda>w. Inr (getpass env
                  (''Mergin Maps password for '' @ [CHR 0x27] @ mergin_username config
                     @ [CHR 0x27] @ '': '') w)))
             (\<lambda>pw. ret (config\<lparr>mergin_password := Some pw\<rparr>))
      else ret config)"

section \<open>The diff engine\<close>

definition newline :: string where
  "newline = [CHR 0x0A]"

definition run_geodiff :: "'w env \<Rightarrow> string list \<Rightarrow> ('w, unit) prog" where
  "run_geodiff env cmd =
     bnd (command (SubprocessRun cmd) RProc (subprocess_run env cmd)) (\<lambda>res.
     bnd (lift (decode (stderr res))) (\<lambda>geodiff_stderr.
     thn (if geodiff_stderr \<noteq> [] then print (''GEODIFF: '' @ geodiff_stderr) else ret ())
         (if returncode res \<noteq> 0
          then throw (DbSyncError (''geodiff failed!'' @ newline @ str_cmd env cmd))
          else ret ())))"

definition geodiff_create_changeset ::
  "'w env \<Rightarrow> config \<Rightarrow> string \<Rightarrow> string \<Rightarrow> string \<Rightarrow> string \<Rightarrow> string \<Rightarrow> ('w, unit) prog" where
  "geodiff_create_changeset env config drv ci base_ds modified_ds changeset =
     run_geodiff env
       [geodiff_exe config, ''diff'', ''--driver'', drv, ci, base_ds, modified_ds, changeset]"

definition geodiff_apply_changeset ::
  "'w env \<Rightarrow> config \<Rightarrow> string \<Rightarrow> string \<Rightarrow> string \<Rightarrow> string \<Rightarrow> ('w, unit) prog" where
  "geodiff_apply_changeset env config drv ci base_ds changeset =
     run_geodiff env [geodiff_exe config, ''apply'', ''--driver'', drv, ci, base_ds, changeset]"

definition geodiff_rebase ::
  "'w env \<Rightarrow> config \<Rightarrow> string \<Rightarrow> string \<Rightarrow> string \<Rightarrow> string \<Rightarrow> string \<Rightarrow> string
     \<Rightarrow> ('w, unit) prog" where
  "geodiff_rebase env config drv ci base_ds our base2their conflicts =
     run_geodiff env
       [geodiff_exe config, ''rebase-db'', ''--driver'', drv, ci, base_ds, our, base2their,
        conflicts]"

text \<open>The two listings share their shape: remove a left-over output file, let the
  engine write it, load it, remove it, return the list under the given key.\<close>

definition geodiff_list_changes_details :: "'w env \<Rightarrow> config \<Rightarrow> string \<Rightarrow> ('w, json) prog" where
  "geodiff_list_changes_details env config changeset =
     (let tmp_output = path_join (gettempdir env) ''dbsync-changeset-details'' in
      bnd (path_exists env tmp_output) (\<lambda>there.
      thn (if there then command (OsRemove tmp_output) unit_result (os_remove env tmp_output) else ret ())
     (thn (run_geodiff env [geodiff_exe config, ''as-json'', changeset, tmp_output])
     (bnd (query (JsonLoad tmp_output) RJson (json_load env tmp_output)) (\<lambda>out.
      thn (command (OsRemove tmp_output) unit_result (os_remove env tmp_output))
          (lift (py_getitem out ''geodiff'')))))))"

definition geodiff_list_changes_summary :: "'w env \<Rightarrow> config \<Rightarrow> string \<Rightarrow> ('w, json) prog" where
  "geodiff_list_changes_summary env config changeset =
     (let tmp_output = path_join (gettempdir env) ''dbsync-changeset-summary'' in
      bnd (path_exists env tmp_output) (\<lambda>there.
      thn (if there then command (OsRemove tmp_output) unit_result (os_remove env tmp_output) else ret ())
     (thn (run_geodiff env [geodiff_exe config, ''as-summary'', changeset, tmp_output])
     (bnd (query (JsonLoad tmp_output) RJson (json_load env tmp_output)) (\<lambda>out.
      thn (command (OsRemove tmp_output) unit_result (os_remove env tmp_output))
          (lift (py_getitem out ''geodiff_summary'')))))))"

definition geodiff_make_copy ::
  "'w env \<Rightarrow> config \<Rightarrow> string \<Rightarrow> string \<Rightarrow> string \<Rightarrow> string \<Rightarrow> string \<Rightarrow> string
     \<Rightarrow> ('w, unit) prog" where
  "geodiff_make_copy env config src_driver src_conn_info src dst_driver dst_conn_info dst =
     run_geodiff env
       [geodiff_exe config, ''copy'', ''--driver-1'', src_driver, src_conn_info,
        ''--driver-2'', dst_driver, dst_conn_info, src, dst]"

definition geodiff_create_changeset_dr ::
  "'w env \<Rightarrow> config \<Rightarrow> string \<Rightarrow> string \<Rightarrow> string \<Rightarrow> string \<Rightarrow> string \<Rightarrow> string \<Rightarrow> string
     \<Rightarrow> ('w, unit) prog" where
  "geodiff_create_changeset_dr env config src_driver src_conn_info src dst_driver dst_conn_info
       dst changeset =
     run_geodiff env
       [geodiff_exe config, ''diff'', ''--driver-1'', src_driver, src_conn_info,
        ''--driver-2'', dst_driver, dst_conn_info, src, dst, changeset]"

text \<open>\<open>compare_datasets\<close> writes its changeset under a random name of eight letters and
  leaves it there.\<close>

definition compare_datasets ::
  "'w env \<Rightarrow> config \<Rightarrow> string \<Rightarrow> string \<Rightarrow> string \<Rightarrow> string \<Rightarrow> string \<Rightarrow> string \<Rightarrow> bool
     \<Rightarrow> ('w, json) prog" where
  "compare_datasets env config src_driver src_conn_info src dst_driver dst_conn_info dst
       summary_only =
     bnd (command RandomChoices RString (\<lambda>w. case random_choices env w of (n, w') \<Rightarrow> (Inr n, w')))
       (\<lambda>name.
     let tmp_changeset = path_join (gettempdir env) name in
     thn (geodiff_create_changeset_dr env config src_driver src_conn_info src
            dst_driver dst_conn_info dst tmp_changeset)
         (if summary_only then geodiff_list_changes_summary env config tmp_changeset
          else geodiff_list_changes_details env config tmp_changeset))"

section \<open>Printing, project version and the schema comment\<close>

fun print_lines :: "'w env \<Rightarrow> json list \<Rightarrow> ('w, unit) prog" where
  "print_lines env [] = ret ()"
| "print_lines env (item # items) =
     bnd (lift (format_summary env item)) (\<lambda>line. thn (print line) (print_lines env items))"

definition print_changes_summary :: "'w env \<Rightarrow> json \<Rightarrow> string option \<Rightarrow> ('w, unit) prog" where
  "print_changes_summary env summary label =
     thn (print (case label of None \<Rightarrow> ''Changes:'' | Some l \<Rightarrow> l))
         (bnd (lift (py_iter summary)) (print_lines env))"

definition print_mergin_changes :: "changes \<Rightarrow> ('w, unit) prog" where
  "print_mergin_changes diff_dict s =
     (Inr (), s\<lparr>stdout := stdout s
        @ map (\<lambda>p. ''  added:   '' @ p) (added diff_dict)
        @ map (\<lambda>p. ''  updated: '' @ p) (updated diff_dict)
        @ map (\<lambda>p. ''  removed: '' @ p) (removed diff_dict)\<rparr>)"

definition get_project_version :: "'w env \<Rightarrow> string \<Rightarrow> ('w, string) prog" where
  "get_project_version env work_path =
     bnd (query (MpMetadata work_path) RMeta (mp_metadata env work_path)) (\<lambda>md. ret (md_version md))"

definition project_comment :: "string \<Rightarrow> string \<Rightarrow> string option \<Rightarrow> json" where
  "project_comment project_name version error =
     JObj ([(''name'', JStr project_name), (''version'', JStr version)]
           @ (case error of
                None \<Rightarrow> []
              | Some e \<Rightarrow> if e \<noteq> [] then [(''error'', JStr e)] else []))"

definition set_db_project_comment ::
  "'w env \<Rightarrow> string \<Rightarrow> string \<Rightarrow> string \<Rightarrow> string \<Rightarrow> string option \<Rightarrow> ('w, unit) prog" where
  "set_db_project_comment env conn schema project_name version error =
     (let comment = project_comment project_name version error in
      command (CommentOnSchema conn schema comment) unit_result (comment_on_schema env conn schema comment))"

definition get_db_project_comment :: "'w env \<Rightarrow> string \<Rightarrow> string \<Rightarrow> ('w, json) prog" where
  "get_db_project_comment env conn schema =
     query (ObjDescription conn schema) RJson (obj_description env conn schema)"

definition connect :: "'w env \<Rightarrow> string \<Rightarrow> ('w, string) prog" where
  "connect env ci = bnd (query (Psycopg2Connect ci) unit_result (psycopg2_connect env ci)) (\<lambda>_. ret ci)"

text \<open>The handler of \<^verbatim>\<open>except ClientError as e: raise DbSyncError(prefix + str(e))\<close>.\<close>

definition client_error_as :: "string \<Rightarrow> exn \<Rightarrow> ('w, 'a) prog option" where
  "client_error_as prefix e =
     (case e of ClientError m \<Rightarrow> Some (throw (DbSyncError (prefix @ m))) | _ \<Rightarrow> None)"

definition create_mergin_client :: "'w env \<Rightarrow> config \<Rightarrow> ('w, config) prog" where
  "create_mergin_client env config =
     bnd (check_has_password env config) (\<lambda>config.
     except (bnd (query McLogin unit_result (mc_login env config)) (\<lambda>_. ret config))
       (\<lambda>e. case e of
          LoginError m \<Rightarrow> Some (throw (DbSyncError
            (''Unable to log in to Mergin Maps: '' @ m @ '' '' @ newline @ newline
               @ ''Have you specified correct credentials in configuration file?'')))
        | ClientError m \<Rightarrow> Some (throw (DbSyncError (''Mergin Maps client error: '' @ m)))
        | _ \<Rightarrow> None))"

section \<open>pull\<close>

definition pull :: "'w env \<Rightarrow> config \<Rightarrow> conn_cfg \<Rightarrow> ('w, unit) prog" where
  "pull env config cc =
     thn (print (''Processing Mergin Maps project '' @ [CHR 0x27] @ mergin_project cc
                   @ [CHR 0x27]))
    (bnd (lift (project_name_of cc)) (\<lambda>project_name.
     let work_dir = path_join (working_dir config) project_name;
         gpkg_full_path = path_join work_dir (sync_file cc) in
     thn (check_has_working_dir env work_dir)
    (thn (check_has_sync_file env gpkg_full_path)
    (bnd (query (MpGeodiff work_dir) RBool (mp_geodiff env work_dir)) (\<lambda>has_geodiff.
     if \<not> has_geodiff
     then throw (DbSyncError ''Mergin Maps client installation problem: geodiff not available'')
     else
     bnd (query (MpMetadata work_dir) RMeta (mp_metadata env work_dir)) (\<lambda>md1.
     let project_path = md_name md1 in
     bnd (query (MpMetadata work_dir) RMeta (mp_metadata env work_dir)) (\<lambda>md2.
     let local_version = md_version md2 in
     bnd (except
            (bnd (query (McGetProjectsByNames [project_path]) RProjects
                    (mc_get_projects_by_names env [project_path])) (\<lambda>projects.
             lift (case map_of projects project_path of
                     None \<Rightarrow> Inl (PyError ''KeyError'')
                   | Some info \<Rightarrow> Inr (pi_version info))))
            (client_error_as ''Mergin Maps client error: '')) (\<lambda>server_version.
     bnd (query (MpGetPushChanges work_dir) RChanges (mp_get_push_changes env work_dir)) (\<lambda>status_push.
     if pending status_push
     then throw (DbSyncError
       (''There are pending changes in the local directory - that should never happen! ''
          @ str_changes env status_push))
     else if server_version = local_version
     then print ''No changes on Mergin Maps.''
     else
     let gpkg_basefile = path_join (path_join work_dir ''.mergin'') (sync_file cc);
         gpkg_basefile_old = gpkg_basefile @ ''-old'' in
     thn (command (ShutilCopy gpkg_basefile gpkg_basefile_old) unit_result
            (shutil_copy env gpkg_basefile gpkg_basefile_old))
    (let tmp_dir = gettempdir env;
         tmp_base2our = path_join tmp_dir (project_name @ ''-dbsync-pull-base2our'');
         tmp_base2their = path_join tmp_dir (project_name @ ''-dbsync-pull-base2their'') in
     thn (geodiff_create_changeset env config (driver cc) (conn_info cc) (base cc) (modified cc)
            tmp_base2our)
    (bnd (query (OsPathGetsize tmp_base2our) RNat (os_path_getsize env tmp_base2our)) (\<lambda>size.
     let needs_rebase = (size \<noteq> 0) in
     thn (if needs_rebase
          then bnd (geodiff_list_changes_summary env config tmp_base2our) (\<lambda>summary.
               print_changes_summary env summary (Some ''DB Changes:''))
          else ret ())
    (thn (except (command (McPullProject work_dir) unit_result (mc_pull_project env work_dir))
            (client_error_as ''Mergin Maps client error on pull: ''))
    (bnd (get_project_version env work_dir) (\<lambda>v.
     thn (print (''Pulled new version from Mergin Maps: '' @ v))
    (thn (geodiff_create_changeset env config ''sqlite'' [] gpkg_basefile_old gpkg_basefile
            tmp_base2their)
    (bnd (geodiff_list_changes_summary env config tmp_base2their) (\<lambda>summary.
     thn (print_changes_summary env summary (Some ''Mergin Maps Changes:''))
    (thn (if \<not> needs_rebase
          then thn (print ''Applying new version [no rebase]'')
              (thn (geodiff_apply_changeset env config (driver cc) (conn_info cc) (base cc)
                      tmp_base2their)
                   (geodiff_apply_changeset env config (driver cc) (conn_info cc) (modified cc)
                      tmp_base2their))
          else thn (print ''Applying new version [WITH rebase]'')
              (let tmp_conflicts =
                     path_join tmp_dir (project_name @ ''-dbsync-pull-conflicts'') in
               thn (geodiff_rebase env config (driver cc) (conn_info cc) (base cc)
                      (modified cc) tmp_base2their tmp_conflicts)
                   (geodiff_apply_changeset env config (driver cc) (conn_info cc) (base cc)
                      tmp_base2their)))
    (thn (command (OsRemove gpkg_basefile_old) unit_result (os_remove env gpkg_basefile_old))
    (bnd (connect env (conn_info cc)) (\<lambda>conn.
     bnd (get_project_version env work_dir) (\<lambda>version.
     set_db_project_comment env conn (base cc) (mergin_project cc) version None
     )))))))))))))))))))))))"

section \<open>status\<close>

definition status :: "'w env \<Rightarrow> config \<Rightarrow> conn_cfg \<Rightarrow> ('w, unit) prog" where
  "status env config cc =
     thn (print (''Processing Mergin Maps project '' @ [CHR 0x27] @ mergin_project cc
                   @ [CHR 0x27]))
    (bnd (lift (project_name_of cc)) (\<lambda>project_name.
     let work_dir = path_join (working_dir config) project_name;
         gpkg_full_path = path_join work_dir (sync_file cc) in
     thn (check_has_working_dir env work_dir)
    (thn (check_has_sync_file env gpkg_full_path)
    (bnd (query (MpGeodiff work_dir) RBool (mp_geodiff env work_dir)) (\<lambda>has_geodiff.
     if \<not> has_geodiff
     then throw (DbSyncError ''Mergin Maps client installation problem: geodiff not available'')
     else
     bnd (query (MpGetPushChanges work_dir) RChanges (mp_get_push_changes env work_dir)) (\<lambda>status_push.
     if pending status_push
     then throw (DbSyncError
       (''Pending changes in the local directory - that should never happen! ''
          @ str_changes env status_push))
     else
     bnd (query (MpMetadata work_dir) RMeta (mp_metadata env work_dir)) (\<lambda>md1.
     let project_path = md_name md1 in
     bnd (query (MpMetadata work_dir) RMeta (mp_metadata env work_dir)) (\<lambda>md2.
     let local_version = md_version md2 in
     thn (print (''Working directory '' @ work_dir))
    (thn (print (''Mergin Maps project '' @ project_path @ '' at local version ''
                   @ local_version))
    (thn (print [])
    (thn (print ''Checking status...'')
    (bnd (except (query (McProjectInfo project_path local_version) RInfo
                    (mc_project_info env project_path local_version))
            (client_error_as ''Mergin Maps client error: '')) (\<lambda>server_info.
     thn (print (''Server is at version '' @ pi_version server_info))
    (bnd (query (MpGetPullChanges work_dir) RChanges
            (mp_get_pull_changes env work_dir (pi_files server_info)))
       (\<lambda>status_pull.
     thn (if pending status_pull
          then thn (print ''There are pending changes on server:'')
                   (print_mergin_changes status_pull)
          else print ''No pending changes on server.'')
    (thn (print [])
    (bnd (connect env (conn_info cc)) (\<lambda>conn.
     bnd (check_schema_exists env conn (base cc)) (\<lambda>base_there.
     if \<not> base_there
     then throw (DbSyncError (''The base schema does not exist: '' @ base cc))
     else
     bnd (check_schema_exists env conn (modified cc)) (\<lambda>modified_there.
     if \<not> modified_there
     then throw (DbSyncError
       (''The '' @ [CHR 0x27] @ ''modified'' @ [CHR 0x27] @ '' schema does not exist: ''
          @ modified cc))
     else
     let tmp_changeset_file =
           path_join (gettempdir env) (project_name @ ''-dbsync-status-base2our'') in
     bnd (path_exists env tmp_changeset_file) (\<lambda>there.
     thn (if there
          then command (OsRemove tmp_changeset_file) unit_result (os_remove env tmp_changeset_file)
          else ret ())
    (thn (geodiff_create_changeset env config (driver cc) (conn_info cc) (base cc) (modified cc)
            tmp_changeset_file)
    (bnd (query (OsPathGetsize tmp_changeset_file) RNat (os_path_getsize env tmp_changeset_file))
       (\<lambda>size.
     if size = 0
     then print ''No changes in the database.''
     else thn (print ''There are changes in DB'')
         (bnd (geodiff_list_changes_summary env config tmp_changeset_file) (\<lambda>summary.
          print_changes_summary env summary None))
     ))))))))))))))))))))))))"

section \<open>push\<close>

definition push :: "'w env \<Rightarrow> config \<Rightarrow> conn_cfg \<Rightarrow> ('w, unit) prog" where
  "push env config cc =
     thn (print (''Processing Mergin Maps project '' @ [CHR 0x27] @ mergin_project cc
                   @ [CHR 0x27]))
    (bnd (lift (project_name_of cc)) (\<lambda>project_name.
     let tmp_changeset_file =
           path_join (gettempdir env) (project_name @ ''-dbsync-push-base2our'') in
     bnd (path_exists env tmp_changeset_file) (\<lambda>there.
     thn (if there
          then command (OsRemove tmp_changeset_file) unit_result (os_remove env tmp_changeset_file)
          else ret ())
    (let work_dir = path_join (working_dir config) project_name;
         gpkg_full_path = path_join work_dir (sync_file cc) in
     thn (check_has_working_dir env work_dir)
    (thn (check_has_sync_file env gpkg_full_path)
    (bnd (query (MpGeodiff work_dir) RBool (mp_geodiff env work_dir)) (\<lambda>has_geodiff.
     if \<not> has_geodiff
     then throw (DbSyncError ''Mergin Maps client installation problem: geodiff not available'')
     else
     bnd (query (MpMetadata work_dir) RMeta (mp_metadata env work_dir)) (\<lambda>md1.
     let project_path = md_name md1 in
     bnd (query (MpMetadata work_dir) RMeta (mp_metadata env work_dir)) (\<lambda>md2.
     let local_version = md_version md2 in
     bnd (except
            (bnd (query (McGetProjectsByNames [project_path]) RProjects
                    (mc_get_projects_by_names env [project_path])) (\<lambda>projects.
             lift (case map_of projects project_path of
                     None \<Rightarrow> Inl (PyError ''KeyError'')
                   | Some info \<Rightarrow> Inr (pi_version info))))
            (client_error_as ''Mergin Maps client error: '')) (\<lambda>server_version.
     bnd (query (MpGetPushChanges work_dir) RChanges (mp_get_push_changes env work_dir)) (\<lambda>status_push.
     if pending status_push
     then throw (DbSyncError
       (''There are pending changes in the local directory - that should never happen! ''
          @ str_changes env status_push))
     else if server_version \<noteq> local_version
     then throw (DbSyncError ''There are pending changes on server - need to pull them first.'')
     else
     bnd (connect env (conn_info cc)) (\<lambda>conn.
     bnd (check_schema_exists env conn (base cc)) (\<lambda>base_there.
     if \<not> base_there
     then throw (DbSyncError (''The base schema does not exist: '' @ base cc))
     else
     bnd (check_schema_exists env conn (modified cc)) (\<lambda>modified_there.
     if \<not> modified_there
     then throw (DbSyncError
       (''The '' @ [CHR 0x27] @ ''modified'' @ [CHR 0x27] @ '' schema does not exist: ''
          @ modified cc))
     else
     thn (geodiff_create_changeset env config (driver cc) (conn_info cc) (base cc) (modified cc)
            tmp_changeset_file)
    (bnd (query (OsPathGetsize tmp_changeset_file) RNat (os_path_getsize env tmp_changeset_file))
       (\<lambda>size.
     if size = 0
     then print ''No changes in the database.''
     else
     bnd (geodiff_list_changes_summary env config tmp_changeset_file) (\<lambda>summary.
     thn (print_changes_summary env summary None)
    (thn (print ''Writing DB changes to working dir...'')
    (thn (geodiff_apply_changeset env config ''sqlite'' [] gpkg_full_path tmp_changeset_file)
    (thn (except (command (McPushProject work_dir) unit_result (mc_push_project env work_dir))
            (client_error_as ''Mergin Maps client error on push: ''))
    (bnd (get_project_version env work_dir) (\<lambda>version.
     thn (print (''Pushed new version to Mergin Maps: '' @ version))
    (thn (print ''Updating DB base schema...'')
    (thn (geodiff_apply_changeset env config (driver cc) (conn_info cc) (base cc)
            tmp_changeset_file)
         (set_db_project_comment env conn (base cc) (mergin_project cc) version None)
     ))))))))))))))))))))))))"

section \<open>init\<close>

text \<open>\<open>init\<close> is embedded in four parts, in the order of the source: the working copy
  when both schemas exist or not (lines 452 to 486), the two directions (lines 500 to 555
  and 557 to 615), and the function that runs the checks and selects the direction.
  \<open>db_proj_info\<close> is the comment read from the \<open>base\<close> schema; it is read only where
  both schemas exist.\<close>

definition init_error :: string where
  "init_error = ''Initialization of db-sync failed due to a bug in geodiff''"

definition init_error_raised :: string where
  "init_error_raised = ''Initialization of db-sync failed due to a bug in geodiff.''
     @ newline @ '' Please report this problem to mergin-db-sync developers''"

definition download_at :: "'w env \<Rightarrow> conn_cfg \<Rightarrow> string \<Rightarrow> json \<Rightarrow> ('w, unit) prog" where
  "download_at env cc work_dir db_proj_info =
     bnd (lift (py_getitem db_proj_info ''version'')) (\<lambda>ver.
     thn (print (''Downloading version '' @ py_str env ver @ '' of Mergin Maps project ''
                   @ mergin_project cc @ '' to '' @ work_dir))
         (command (McDownloadProject (mergin_project cc) work_dir (Some ver)) unit_result
            (mc_download_project env (mergin_project cc) work_dir (Some ver))))"

definition init_working_copy ::
  "'w env \<Rightarrow> config \<Rightarrow> conn_cfg \<Rightarrow> string \<Rightarrow> string \<Rightarrow> string \<Rightarrow> bool \<Rightarrow> bool
     \<Rightarrow> ('w, json) prog" where
  "init_working_copy env config cc conn work_dir gpkg_full_path base_schema_exists
       modified_schema_exists =
     (if modified_schema_exists \<and> base_schema_exists
      then
        thn (print ''Modified and base schemas already exist'')
       (bnd (get_db_project_comment env conn (base cc)) (\<lambda>db_proj_info.
        if \<not> py_truthy db_proj_info
        then throw (DbSyncError ''Base schema exists but missing which project it belongs to'')
        else
        bnd (lift (py_in ''error'' db_proj_info)) (\<lambda>has_error.
        if has_error
        then
          bnd (compare_datasets env config ''sqlite'' [] gpkg_full_path (driver cc)
                 (conn_info cc) (base cc) False) (\<lambda>changes_gpkg_base.
          thn (print (''Changeset from failed init:'' @ newline @ '' ''
                        @ json_dumps env changes_gpkg_base))
         (bnd (lift (py_getitem db_proj_info ''error'')) (\<lambda>err.
          throw (DbSyncError (py_str env err)))))
        else
          thn (bnd (path_exists env work_dir) (\<lambda>there.
               if \<not> there
               then download_at env cc work_dir db_proj_info
               else
                 bnd (get_project_version env work_dir) (\<lambda>local_version.
                 thn (print (''Working directory '' @ work_dir
                               @ '' already exists, with project version '' @ local_version))
                (bnd (lift (py_getitem db_proj_info ''version'')) (\<lambda>ver.
                 if JStr local_version \<noteq> ver
                 then thn (print (''Removing local working directory '' @ work_dir))
                     (thn (command (ShutilRmtree work_dir) unit_result (shutil_rmtree env work_dir))
                          (download_at env cc work_dir db_proj_info))
                 else ret ())))))
              (ret db_proj_info))))
      else
        thn (bnd (path_exists env work_dir) (\<lambda>there.
             if \<not> there
             then thn (print (''Downloading latest Mergin Maps project '' @ mergin_project cc
                                @ '' to '' @ work_dir))
                      (command (McDownloadProject (mergin_project cc) work_dir None) unit_result
                         (mc_download_project env (mergin_project cc) work_dir None))
             else
               bnd (get_project_version env work_dir) (\<lambda>local_version.
               print (''Working directory '' @ work_dir
                        @ '' already exists, with project version '' @ local_version))))
            (ret JNull))"

text \<open>The handler of both \<^verbatim>\<open>except DbSyncError\<close> blocks: tag the \<open>base\<close> schema, raise again.\<close>

definition tag_and_reraise ::
  "'w env \<Rightarrow> conn_cfg \<Rightarrow> string \<Rightarrow> string \<Rightarrow> exn \<Rightarrow> ('w, unit) prog option" where
  "tag_and_reraise env cc conn local_version e =
     (case e of
        DbSyncError m \<Rightarrow>
          Some (thn (set_db_project_comment env conn (base cc) (mergin_project cc)
                       local_version (Some init_error))
                    (throw (DbSyncError m)))
      | _ \<Rightarrow> None)"

text \<open>The sanity check that closes both \<^verbatim>\<open>try\<close> blocks.\<close>

definition self_check ::
  "'w env \<Rightarrow> config \<Rightarrow> conn_cfg \<Rightarrow> string \<Rightarrow> ('w, unit) prog" where
  "self_check env config cc gpkg_full_path =
     bnd (compare_datasets env config ''sqlite'' [] gpkg_full_path (driver cc) (conn_info cc)
            (base cc) False) (\<lambda>changes_gpkg_base.
     bnd (lift (py_len changes_gpkg_base)) (\<lambda>n.
     if n \<noteq> 0
     then thn (print (''Changeset after internal copy (should be empty):'' @ newline @ '' ''
                        @ json_dumps env changes_gpkg_base))
              (throw (DbSyncError init_error_raised))
     else ret ()))"

definition init_from_gpkg ::
  "'w env \<Rightarrow> config \<Rightarrow> conn_cfg \<Rightarrow> string \<Rightarrow> string \<Rightarrow> string \<Rightarrow> bool \<Rightarrow> bool \<Rightarrow> json
     \<Rightarrow> string \<Rightarrow> ('w, unit) prog" where
  "init_from_gpkg env config cc conn work_dir gpkg_full_path base_schema_exists
       modified_schema_exists db_proj_info local_version =
     bnd (path_exists env gpkg_full_path) (\<lambda>there.
     if \<not> there
     then throw (DbSyncError (''The input GPKG file does not exist: '' @ gpkg_full_path))
     else if modified_schema_exists \<and> base_schema_exists
     then
       bnd (compare_datasets env config ''sqlite'' [] gpkg_full_path (driver cc) (conn_info cc)
              (modified cc) True) (\<lambda>summary_modified.
       bnd (compare_datasets env config ''sqlite'' [] gpkg_full_path (driver cc) (conn_info cc)
              (base cc) True) (\<lambda>summary_base.
       bnd (lift (py_len summary_base)) (\<lambda>n_base.
       if n_base \<noteq> 0
       then
         bnd (lift (py_getitem db_proj_info ''version'')) (\<lambda>ver.
         thn (print (''Local project version at '' @ local_version @ '' and base schema at ''
                       @ py_str env ver))
        (thn (print_changes_summary env summary_base (Some ''Base schema changes:''))
             (throw (DbSyncError
                (''The db schemas already exist but '' @ [CHR 0x27] @ ''base'' @ [CHR 0x27]
                   @ '' schema is not synchronized with source GPKG'')))))
       else
         bnd (lift (py_len summary_modified)) (\<lambda>n_modified.
         if n_modified \<noteq> 0
         then thn (print (''Modified schema is not synchronised with source GPKG, ''
                            @ ''please run pull/push commands to fix it''))
                  (print_changes_summary env summary_modified (Some ''Pending Changes:''))
         else print ''The GPKG file, base and modified schemas are already initialized and in sync''
         ))))
     else if modified_schema_exists
     then throw (DbSyncError
       (''The '' @ [CHR 0x27] @ ''modified'' @ [CHR 0x27]
          @ '' schema exists but the base schema is missing: '' @ base cc))
     else if base_schema_exists
     then throw (DbSyncError
       (''The base schema exists but the modified schema is missing: '' @ modified cc))
     else
       thn (print ''The base and modified schemas do not exist yet, going to initialize them ...'')
      (thn (except
              (thn (geodiff_make_copy env config ''sqlite'' [] gpkg_full_path
                      (driver cc) (conn_info cc) (modified cc))
              (thn (geodiff_make_copy env config (driver cc) (conn_info cc) (modified cc)
                      (driver cc) (conn_info cc) (base cc))
                   (self_check env config cc gpkg_full_path)))
              (tag_and_reraise env cc conn local_version))
           (set_db_project_comment env conn (base cc) (mergin_project cc) local_version None)))"

definition init_from_db ::
  "'w env \<Rightarrow> config \<Rightarrow> conn_cfg \<Rightarrow> string \<Rightarrow> string \<Rightarrow> string \<Rightarrow> bool \<Rightarrow> bool \<Rightarrow> json
     \<Rightarrow> string \<Rightarrow> ('w, unit) prog" where
  "init_from_db env config cc conn work_dir gpkg_full_path base_schema_exists
       modified_schema_exists db_proj_info local_version =
     (if \<not> modified_schema_exists
      then throw (DbSyncError
        (''The '' @ [CHR 0x27] @ ''modified'' @ [CHR 0x27] @ '' schema does not exist: ''
           @ modified cc))
      else
      bnd (path_exists env gpkg_full_path) (\<lambda>there.
      if there \<and> base_schema_exists
      then
        bnd (compare_datasets env config (driver cc) (conn_info cc) (modified cc) ''sqlite'' []
               gpkg_full_path True) (\<lambda>summary_modified.
        bnd (compare_datasets env config (driver cc) (conn_info cc) (base cc) ''sqlite'' []
               gpkg_full_path True) (\<lambda>summary_base.
        bnd (lift (py_len summary_base)) (\<lambda>n_base.
        if n_base \<noteq> 0
        then
          bnd (get_project_version env work_dir) (\<lambda>v.
          bnd (lift (py_getitem db_proj_info ''version'')) (\<lambda>ver.
          thn (print (''Local project version at '' @ v @ '' and base schema at ''
                        @ py_str env ver))
         (thn (print_changes_summary env summary_base (Some ''Base schema changes:''))
              (throw (DbSyncError
                 (''The output GPKG file exists already but is not synchronized with db ''
                    @ [CHR 0x27] @ ''base'' @ [CHR 0x27] @ '' schema''))))))
        else
          bnd (lift (py_len summary_modified)) (\<lambda>n_modified.
          if n_modified \<noteq> 0
          then thn (print (''The output GPKG file exists already but it is not synchronised ''
                             @ ''with modified schema, please run pull/push commands to fix it''))
                   (print_changes_summary env summary_modified (Some ''Pending Changes:''))
          else print ''The GPKG file, base and modified schemas are already initialized and in sync''
          ))))
      else
      bnd (path_exists env gpkg_full_path) (\<lambda>there.
      if there
      then throw (DbSyncError
        (''The output GPKG exists but the base schema is missing: '' @ base cc))
      else if base_schema_exists
      then throw (DbSyncError
        (''The base schema exists but the output GPKG exists is missing: '' @ gpkg_full_path))
      else
        thn (print ''The base schema and the output GPKG do not exist yet, going to initialize them ...'')
       (thn (except
               (thn (geodiff_make_copy env config (driver cc) (conn_info cc) (modified cc)
                       (driver cc) (conn_info cc) (base cc))
               (thn (geodiff_make_copy env config (driver cc) (conn_info cc) (modified cc)
                       ''sqlite'' [] gpkg_full_path)
                    (self_check env config cc gpkg_full_path)))
               (tag_and_reraise env cc conn local_version))
       (thn (command (McPushProject work_dir) unit_result (mc_push_project env work_dir))
       (bnd (get_project_version env work_dir) (\<lambda>version.
        set_db_project_comment env conn (base cc) (mergin_project cc) version None)))))))"

definition init :: "'w env \<Rightarrow> config \<Rightarrow> conn_cfg \<Rightarrow> bool \<Rightarrow> ('w, unit) prog" where
  "init env config cc from_gpkg =
     thn (print (''Processing Mergin Maps project '' @ [CHR 0x27] @ mergin_project cc
                   @ [CHR 0x27]))
    (bnd (lift (project_name_of cc)) (\<lambda>project_name.
     thn (print ''Connecting to the database...'')
    (bnd (except (connect env (conn_info cc))
            (\<lambda>e. case e of
               PsycopgError m \<Rightarrow>
                 Some (throw (DbSyncError (''Unable to connect to the database: '' @ m)))
             | _ \<Rightarrow> None)) (\<lambda>conn.
     bnd (check_schema_exists env conn (base cc)) (\<lambda>base_schema_exists.
     bnd (check_schema_exists env conn (modified cc)) (\<lambda>modified_schema_exists.
     let work_dir = path_join (working_dir config) project_name;
         gpkg_full_path = path_join work_dir (sync_file cc) in
     bnd (init_working_copy env config cc conn work_dir gpkg_full_path base_schema_exists
            modified_schema_exists) (\<lambda>db_proj_info.
     thn (check_has_working_dir env work_dir)
    (bnd (get_project_version env work_dir) (\<lambda>local_version.
     bnd (query (McProjectStatus work_dir) RStatus (mc_project_status env work_dir)) (\<lambda>st.
     let status_pull = fst st; status_push = snd st in
     thn (if pending status_pull
          then print ''There are pending changes on server, please run pull command after init''
          else ret ())
         (if pending status_push
          then throw (DbSyncError
            (''There are pending changes in the local directory - that should never happen! ''
               @ str_changes env status_push))
          else if from_gpkg
          then init_from_gpkg env config cc conn work_dir gpkg_full_path base_schema_exists
                 modified_schema_exists db_proj_info local_version
          else init_from_db env config cc conn work_dir gpkg_full_path base_schema_exists
                 modified_schema_exists db_proj_info local_version)
     ))))))))))"

section \<open>The command line\<close>

text \<open>\<^verbatim>\<open>for conn in config.connections: f(conn, mc)\<close>: the first exception ends the loop.\<close>

fun for_each :: "('a \<Rightarrow> ('w, unit) prog) \<Rightarrow> 'a list \<Rightarrow> ('w, unit) prog" where
  "for_each f [] = ret ()"
| "for_each f (x # xs) = thn (f x) (for_each f xs)"

text \<open>\<open>dbsync_init\<close> takes \<open>from_gpkg\<close> and passes \<open>True\<close> to \<open>init\<close> (line 620).\<close>

definition dbsync_init :: "'w env \<Rightarrow> config \<Rightarrow> bool \<Rightarrow> ('w, unit) prog" where
  "dbsync_init env config from_gpkg =
     thn (for_each (\<lambda>conn. init env config conn True) (connections config))
         (print ''Init done!'')"

definition dbsync_pull :: "'w env \<Rightarrow> config \<Rightarrow> ('w, unit) prog" where
  "dbsync_pull env config =
     thn (for_each (pull env config) (connections config)) (print ''Pull done!'')"

definition dbsync_push :: "'w env \<Rightarrow> config \<Rightarrow> ('w, unit) prog" where
  "dbsync_push env config =
     thn (for_each (push env config) (connections config)) (print ''Push done!'')"

definition dbsync_status :: "'w env \<Rightarrow> config \<Rightarrow> ('w, unit) prog" where
  "dbsync_status env config = for_each (status env config) (connections config)"

definition show_usage :: "('w, unit) prog" where
  "show_usage s =
     (Inr (), s\<lparr>stdout := stdout s @
        [''dbsync'',
         [],
         ''    dbsync init-from-db   = will create base schema in DB + create gpkg file in working copy'',
         ''    dbsync init-from-gpkg = will create base and main schema in DB from gpkg file in working copy'',
         ''    dbsync status      = will check whether there is anything to pull or push'',
         ''    dbsync push        = will push changes from DB to Mergin Maps'',
         ''    dbsync pull        = will pull changes from Mergin Maps to DB'']\<rparr>)"

text \<open>\<open>main\<close> reads \<^verbatim>\<open>sys.argv\<close>; it catches \<open>ConfigError\<close> and \<open>DbSyncError\<close> and prints
  them, and lets every other exception through.\<close>

definition main :: "'w env \<Rightarrow> config \<Rightarrow> string list \<Rightarrow> ('w, unit) prog" where
  "main env config argv =
     (if length argv < 2 then show_usage
      else
      thn (print (''== Starting Mergin Maps DB Sync version '' @ dbsync_version env @ '' ==''))
     (bnd (except (bnd (lift (validate_config env config)) (\<lambda>_. ret True))
             (\<lambda>e. case e of
                ConfigError m \<Rightarrow> Some (thn (print (''Error: '' @ m)) (ret False))
              | _ \<Rightarrow> None)) (\<lambda>valid.
      if \<not> valid then ret ()
      else
      except
        (thn (print ''Logging in to Mergin Maps...'')
        (bnd (create_mergin_client env config) (\<lambda>config.
         if argv ! 1 = ''init-from-gpkg''
         then thn (print ''Initializing from an existing GeoPackage...'')
                  (dbsync_init env config True)
         else if argv ! 1 = ''init-from-db''
         then thn (print ''Initializing from an existing DB schema...'')
                  (dbsync_init env config False)
         else if argv ! 1 = ''status''
         then dbsync_status env config
         else if argv ! 1 = ''push''
         then thn (print ''Pushing...'') (dbsync_push env config)
         else if argv ! 1 = ''pull''
         then thn (print ''Pulling...'') (dbsync_pull env config)
         else show_usage)))
        (\<lambda>e. case e of
           DbSyncError m \<Rightarrow> Some (print (''Error: '' @ m))
         | _ \<Rightarrow> None))))"

section \<open>A reference world\<close>

text \<open>
  One world the collaborators can act on, after the contract of section 6 of the
  specification: a file system, a database of schemas with their comments, one working
  copy and one hosted project with a single synchronised file. The diff engine's
  algebra on datasets \<open>'d\<close> and changesets \<open>'c\<close> stays a parameter; an operation of the
  engine that returns \<open>None\<close> is a run of the executable that exits with status 1.
\<close>

record ('d, 'c) engine =
  e_diff :: "'d \<Rightarrow> 'd \<Rightarrow> 'c option"
  e_apply :: "'d \<Rightarrow> 'c \<Rightarrow> 'd option"
  e_rebase :: "'d \<Rightarrow> 'd \<Rightarrow> 'c \<Rightarrow> ('d \<times> json) option"
  e_copy :: "'d \<Rightarrow> 'd option"
  e_size :: "'c \<Rightarrow> nat"
  e_summary :: "'c \<Rightarrow> json"
  e_details :: "'c \<Rightarrow> json"
  e_stderr :: "string list \<Rightarrow> string"

datatype ('d, 'c) content = Gpkg 'd | Changeset 'c | Json json

record ('d, 'c) rworld =
  files :: "string \<Rightarrow> ('d, 'c) content option"
  dirs :: "string list"
  schemas :: "string \<Rightarrow> 'd option"
  comments :: "string \<Rightarrow> json"
  db_up :: bool
  meta :: metadata
  edited :: changes
  server_version :: string
  server_data :: 'd
  upload :: "string option"
  names :: "string list"

text \<open>A dataset is a GeoPackage file under the driver \<^verbatim>\<open>sqlite\<close>, a schema otherwise.\<close>

definition dataset :: "string \<Rightarrow> string \<Rightarrow> ('d, 'c) rworld \<Rightarrow> 'd option" where
  "dataset drv name w =
     (if drv = ''sqlite''
      then (case files w name of Some (Gpkg d) \<Rightarrow> Some d | _ \<Rightarrow> None)
      else schemas w name)"

definition store :: "string \<Rightarrow> string \<Rightarrow> 'd \<Rightarrow> ('d, 'c) rworld \<Rightarrow> ('d, 'c) rworld" where
  "store drv name d w =
     (if drv = ''sqlite''
      then w\<lparr>files := (files w)(name := Some (Gpkg d))\<rparr>
      else w\<lparr>schemas := (schemas w)(name := Some d)\<rparr>)"

definition changeset_at :: "string \<Rightarrow> ('d, 'c) rworld \<Rightarrow> 'c option" where
  "changeset_at p w = (case files w p of Some (Changeset c) \<Rightarrow> Some c | _ \<Rightarrow> None)"

definition write_file ::
  "string \<Rightarrow> ('d, 'c) content \<Rightarrow> ('d, 'c) rworld \<Rightarrow> ('d, 'c) rworld" where
  "write_file p f w = w\<lparr>files := (files w)(p := Some f)\<rparr>"

text \<open>What a run of the executable leaves behind, \<open>None\<close> when it fails. The command
  lines are those the program builds: \<^verbatim>\<open>diff\<close> and \<^verbatim>\<open>apply\<close> and \<^verbatim>\<open>rebase-db\<close> with one
  driver, \<^verbatim>\<open>as-json\<close> and \<^verbatim>\<open>as-summary\<close>, \<^verbatim>\<open>copy\<close> and \<^verbatim>\<open>diff\<close> with two drivers.\<close>

fun geodiff_effect ::
  "('d, 'c) engine \<Rightarrow> string list \<Rightarrow> ('d, 'c) rworld \<Rightarrow> ('d, 'c) rworld option" where
  "geodiff_effect E [exe, opr, cs, out] w =
     (case changeset_at cs w of
        None \<Rightarrow> None
      | Some c \<Rightarrow>
          if opr = ''as-json''
          then Some (write_file out (Json (JObj [(''geodiff'', e_details E c)])) w)
          else if opr = ''as-summary''
          then Some (write_file out (Json (JObj [(''geodiff_summary'', e_summary E c)])) w)
          else None)"
| "geodiff_effect E [exe, opr, k, drv, ci, a, cs] w =
     (if opr = ''apply'' \<and> k = ''--driver''
      then (case (dataset drv a w, changeset_at cs w) of
              (Some d, Some c) \<Rightarrow>
                (case e_apply E d c of None \<Rightarrow> None | Some d' \<Rightarrow> Some (store drv a d' w))
            | _ \<Rightarrow> None)
      else None)"
| "geodiff_effect E [exe, opr, k, drv, ci, a, b, out] w =
     (if opr = ''diff'' \<and> k = ''--driver''
      then (case (dataset drv a w, dataset drv b w) of
              (Some d1, Some d2) \<Rightarrow>
                (case e_diff E d1 d2 of
                   None \<Rightarrow> None
                 | Some c \<Rightarrow> Some (write_file out (Changeset c) w))
            | _ \<Rightarrow> None)
      else None)"
| "geodiff_effect E [exe, opr, k, drv, ci, b, our, b2t, conflicts] w =
     (if opr = ''rebase-db'' \<and> k = ''--driver''
      then (case (dataset drv b w, dataset drv our w, changeset_at b2t w) of
              (Some d1, Some d2, Some c) \<Rightarrow>
                (case e_rebase E d1 d2 c of
                   None \<Rightarrow> None
                 | Some (d', j) \<Rightarrow> Some (write_file conflicts (Json j) (store drv our d' w)))
            | _ \<Rightarrow> None)
      else None)"
| "geodiff_effect E [exe, opr, k1, drv1, ci1, k2, drv2, ci2, src, dst] w =
     (if opr = ''copy'' \<and> k1 = ''--driver-1'' \<and> k2 = ''--driver-2''
      then (case dataset drv1 src w of
              None \<Rightarrow> None
            | Some d \<Rightarrow>
                (case e_copy E d of None \<Rightarrow> None | Some d' \<Rightarrow> Some (store drv2 dst d' w)))
      else None)"
| "geodiff_effect E [exe, opr, k1, drv1, ci1, k2, drv2, ci2, src, dst, out] w =
     (if opr = ''diff'' \<and> k1 = ''--driver-1'' \<and> k2 = ''--driver-2''
      then (case (dataset drv1 src w, dataset drv2 dst w) of
              (Some d1, Some d2) \<Rightarrow>
                (case e_diff E d1 d2 of
                   None \<Rightarrow> None
                 | Some c \<Rightarrow> Some (write_file out (Changeset c) w))
            | _ \<Rightarrow> None)
      else None)"
| "geodiff_effect E cmd w = None"

definition geodiff_process ::
  "('d, 'c) engine \<Rightarrow> string list \<Rightarrow> ('d, 'c) rworld
     \<Rightarrow> (exn + completed_process) \<times> ('d, 'c) rworld" where
  "geodiff_process E cmd w =
     (case geodiff_effect E cmd w of
        None \<Rightarrow> (Inr \<lparr>returncode = 1, stderr = e_stderr E cmd\<rparr>, w)
      | Some w' \<Rightarrow> (Inr \<lparr>returncode = 0, stderr = e_stderr E cmd\<rparr>, w'))"

text \<open>The file system.\<close>

definition under :: "string \<Rightarrow> string \<Rightarrow> bool" where
  "under d p = (p = d \<or> take (length d + 1) p = d @ ''/'')"

definition r_exists :: "string \<Rightarrow> ('d, 'c) rworld \<Rightarrow> bool" where
  "r_exists p w = (files w p \<noteq> None \<or> p \<in> set (dirs w))"

definition r_getsize :: "('d, 'c) engine \<Rightarrow> string \<Rightarrow> ('d, 'c) rworld \<Rightarrow> exn + nat" where
  "r_getsize E p w =
     (case files w p of
        None \<Rightarrow> Inl (PyError ''FileNotFoundError'')
      | Some (Changeset c) \<Rightarrow> Inr (e_size E c)
      | Some _ \<Rightarrow> Inr 1)"

definition r_json_load :: "string \<Rightarrow> ('d, 'c) rworld \<Rightarrow> exn + json" where
  "r_json_load p w =
     (case files w p of
        None \<Rightarrow> Inl (PyError ''FileNotFoundError'')
      | Some (Json j) \<Rightarrow> Inr j
      | Some _ \<Rightarrow> Inl (PyError ''JSONDecodeError''))"

definition r_remove :: "string \<Rightarrow> ('d, 'c) rworld \<Rightarrow> (exn + unit) \<times> ('d, 'c) rworld" where
  "r_remove p w =
     (case files w p of
        None \<Rightarrow> (Inl (PyError ''FileNotFoundError''), w)
      | Some _ \<Rightarrow> (Inr (), w\<lparr>files := (files w)(p := None)\<rparr>))"

definition r_copy ::
  "string \<Rightarrow> string \<Rightarrow> ('d, 'c) rworld \<Rightarrow> (exn + unit) \<times> ('d, 'c) rworld" where
  "r_copy src dst w =
     (case files w src of
        None \<Rightarrow> (Inl (PyError ''FileNotFoundError''), w)
      | Some f \<Rightarrow> (Inr (), write_file dst f w))"

definition r_rmtree :: "string \<Rightarrow> ('d, 'c) rworld \<Rightarrow> (exn + unit) \<times> ('d, 'c) rworld" where
  "r_rmtree d w =
     (if d \<in> set (dirs w)
      then (Inr (), w\<lparr>files := (\<lambda>p. if under d p then None else files w p),
                       dirs := filter (\<lambda>p. \<not> under d p) (dirs w)\<rparr>)
      else (Inl (PyError ''FileNotFoundError''), w))"

definition r_random :: "('d, 'c) rworld \<Rightarrow> string \<times> ('d, 'c) rworld" where
  "r_random w =
     (case names w of [] \<Rightarrow> (''AAAAAAAA'', w) | n # ns \<Rightarrow> (n, w\<lparr>names := ns\<rparr>))"

text \<open>The database.\<close>

definition r_connect :: "string \<Rightarrow> ('d, 'c) rworld \<Rightarrow> exn + unit" where
  "r_connect ci w =
     (if db_up w then Inr () else Inl (PsycopgError ''could not connect to server''))"

definition r_namespace_exists :: "string \<Rightarrow> string \<Rightarrow> ('d, 'c) rworld \<Rightarrow> exn + bool" where
  "r_namespace_exists conn s w = Inr (schemas w s \<noteq> None)"

definition r_obj_description :: "string \<Rightarrow> string \<Rightarrow> ('d, 'c) rworld \<Rightarrow> exn + json" where
  "r_obj_description conn s w =
     (if schemas w s = None then Inl (PsycopgError ''schema does not exist'')
      else Inr (comments w s))"

definition r_comment_on_schema ::
  "string \<Rightarrow> string \<Rightarrow> json \<Rightarrow> ('d, 'c) rworld \<Rightarrow> (exn + unit) \<times> ('d, 'c) rworld" where
  "r_comment_on_schema conn s j w =
     (if schemas w s = None then (Inl (PsycopgError ''schema does not exist''), w)
      else (Inr (), w\<lparr>comments := (comments w)(s := j)\<rparr>))"

text \<open>The working copy and the hosted project, whose one file is \<open>sync\<close>.\<close>

definition no_changes :: changes where
  "no_changes = \<lparr>added = [], updated = [], removed = []\<rparr>"

definition is_project :: "string \<Rightarrow> ('d, 'c) rworld \<Rightarrow> bool" where
  "is_project wd w = (wd \<in> set (dirs w) \<and> path_join wd ''.mergin'' \<in> set (dirs w))"

definition r_geodiff :: "string \<Rightarrow> ('d, 'c) rworld \<Rightarrow> exn + bool" where
  "r_geodiff wd w = (if is_project wd w then Inr True else Inl (PyError ''InvalidProject''))"

definition r_metadata :: "string \<Rightarrow> ('d, 'c) rworld \<Rightarrow> exn + metadata" where
  "r_metadata wd w = (if is_project wd w then Inr (meta w) else Inl (PyError ''InvalidProject''))"

definition r_pull_changes :: "string list \<Rightarrow> ('d, 'c) rworld \<Rightarrow> changes" where
  "r_pull_changes fs w =
     (if server_version w = md_version (meta w) then no_changes
      else \<lparr>added = [], updated = fs, removed = []\<rparr>)"

definition r_info :: "string \<Rightarrow> ('d, 'c) rworld \<Rightarrow> project_info" where
  "r_info sync w = \<lparr>pi_version = server_version w, pi_files = [sync]\<rparr>"

definition fetch :: "string \<Rightarrow> string \<Rightarrow> ('d, 'c) rworld \<Rightarrow> ('d, 'c) rworld" where
  "fetch sync wd w =
     w\<lparr>files := (files w)
          (path_join wd sync := Some (Gpkg (server_data w)),
           path_join (path_join wd ''.mergin'') sync := Some (Gpkg (server_data w))),
       meta := (meta w)\<lparr>md_version := server_version w\<rparr>\<rparr>"

definition r_pull_project ::
  "string \<Rightarrow> string \<Rightarrow> ('d, 'c) rworld \<Rightarrow> (exn + unit) \<times> ('d, 'c) rworld" where
  "r_pull_project sync wd w = (Inr (), fetch sync wd w)"

definition r_push_project ::
  "string \<Rightarrow> string \<Rightarrow> ('d, 'c) rworld \<Rightarrow> (exn + unit) \<times> ('d, 'c) rworld" where
  "r_push_project sync wd w =
     (case upload w of
        None \<Rightarrow> (Inl (ClientError ''upload refused''), w)
      | Some v \<Rightarrow>
          (case files w (path_join wd sync) of
             Some (Gpkg d) \<Rightarrow>
               (Inr (),
                w\<lparr>files := (files w)
                     (path_join (path_join wd ''.mergin'') sync := Some (Gpkg d)),
                  meta := (meta w)\<lparr>md_version := v\<rparr>,
                  edited := no_changes,
                  server_version := v,
                  server_data := d,
                  upload := None\<rparr>)
           | _ \<Rightarrow> (Inl (ClientError ''nothing to upload''), w)))"

definition r_download_project ::
  "string \<Rightarrow> string \<Rightarrow> string \<Rightarrow> json option \<Rightarrow> ('d, 'c) rworld
     \<Rightarrow> (exn + unit) \<times> ('d, 'c) rworld" where
  "r_download_project sync p wd ver w =
     (if ver \<noteq> None \<and> ver \<noteq> Some (JStr (server_version w))
      then (Inl (ClientError ''version not available''), w)
      else (Inr (),
            fetch sync wd
              (w\<lparr>dirs := dirs w @ [wd, path_join wd ''.mergin''],
                 meta := \<lparr>md_name = p, md_version = server_version w\<rparr>,
                 edited := no_changes\<rparr>)))"

text \<open>\<^verbatim>\<open>"{:20} {:4} {:4} {:4}".format(item['table'], item['insert'], item['update'],
  item['delete'])\<close>: a string is padded on the right, a number on the left.\<close>

fun show_nat :: "nat \<Rightarrow> string" where
  "show_nat n =
     (if n < 10 then [char_of (48 + n)]
      else show_nat (n div 10) @ [char_of (48 + n mod 10)])"

declare show_nat.simps [simp del]

definition show_int :: "int \<Rightarrow> string" where
  "show_int i = (if i < 0 then ''-'' @ show_nat (nat (- i)) else show_nat (nat i))"

definition align_left :: "nat \<Rightarrow> string \<Rightarrow> string" where
  "align_left width s = s @ replicate (width - length s) (CHR '' '')"

definition align_right :: "nat \<Rightarrow> string \<Rightarrow> string" where
  "align_right width s = replicate (width - length s) (CHR '' '') @ s"

fun format_field :: "nat \<Rightarrow> json \<Rightarrow> exn + string" where
  "format_field width (JStr s) = Inr (align_left width s)"
| "format_field width (JNum i) = Inr (align_right width (show_int i))"
| "format_field width (JBool b) = Inr (align_right width (if b then ''1'' else ''0''))"
| "format_field width j = Inl (PyError ''TypeError'')"

definition r_format_summary :: "json \<Rightarrow> exn + string" where
  "r_format_summary item =
     (case py_getitem item ''table'' of Inl e \<Rightarrow> Inl e | Inr t \<Rightarrow>
      case py_getitem item ''insert'' of Inl e \<Rightarrow> Inl e | Inr i \<Rightarrow>
      case py_getitem item ''update'' of Inl e \<Rightarrow> Inl e | Inr u \<Rightarrow>
      case py_getitem item ''delete'' of Inl e \<Rightarrow> Inl e | Inr d \<Rightarrow>
      case format_field 20 t of Inl e \<Rightarrow> Inl e | Inr ft \<Rightarrow>
      case format_field 4 i of Inl e \<Rightarrow> Inl e | Inr fi \<Rightarrow>
      case format_field 4 u of Inl e \<Rightarrow> Inl e | Inr fu \<Rightarrow>
      case format_field 4 d of Inl e \<Rightarrow> Inl e | Inr fd \<Rightarrow>
      Inr (ft @ '' '' @ fi @ '' '' @ fu @ '' '' @ fd))"

definition ref_env :: "('d, 'c) engine \<Rightarrow> string \<Rightarrow> ('d, 'c) rworld env" where
  "ref_env E sync =
     \<lparr>os_path_exists = r_exists,
      os_path_getsize = r_getsize E,
      json_load = r_json_load,
      os_remove = r_remove,
      shutil_copy = r_copy,
      shutil_rmtree = r_rmtree,
      gettempdir = ''/tmp'',
      random_choices = r_random,
      subprocess_run = geodiff_process E,
      psycopg2_connect = r_connect,
      pg_namespace_exists = r_namespace_exists,
      obj_description = r_obj_description,
      comment_on_schema = r_comment_on_schema,
      mp_geodiff = r_geodiff,
      mp_metadata = r_metadata,
      mp_get_push_changes = (\<lambda>wd w. Inr (edited w)),
      mp_get_pull_changes = (\<lambda>wd fs w. Inr (r_pull_changes fs w)),
      mc_login = (\<lambda>config w. Inr ()),
      mc_get_projects_by_names = (\<lambda>ns w. Inr (map (\<lambda>n. (n, r_info sync w)) ns)),
      mc_project_info = (\<lambda>p since w. Inr (r_info sync w)),
      mc_project_status = (\<lambda>wd w. Inr (r_pull_changes [sync] w, edited w)),
      mc_pull_project = r_pull_project sync,
      mc_push_project = r_push_project sync,
      mc_download_project = r_download_project sync,
      getpass = (\<lambda>prompt w. ''password''),
      validate_config = (\<lambda>config. Inr ()),
      dbsync_version = ''1.0'',
      str_cmd = (\<lambda>cmd. concat (map (\<lambda>a. a @ '' '') cmd)),
      str_changes = (\<lambda>d. concat (added d @ updated d @ removed d)),
      str_json = (\<lambda>j. ''<json>''),
      json_dumps = (\<lambda>j. ''<json>''),
      format_summary = r_format_summary\<rparr>"

text \<open>An engine on the smallest datasets: one integer cell. A changeset is the
  difference of two cells and has as many bytes as its absolute value.\<close>

definition cell_summary :: "int \<Rightarrow> json" where
  "cell_summary c =
     (if c = 0 then JList []
      else JList [JObj [(''table'', JStr ''cell''), (''insert'', JNum 0), (''update'', JNum 1),
                        (''delete'', JNum 0)]])"

definition cell_engine :: "(int, int) engine" where
  "cell_engine =
     \<lparr>e_diff = (\<lambda>a b. Some (b - a)),
      e_apply = (\<lambda>a c. Some (a + c)),
      e_rebase = (\<lambda>b ours c. Some (ours + c, JList [])),
      e_copy = (\<lambda>a. Some a),
      e_size = (\<lambda>c. nat \<bar>c\<bar>),
      e_summary = cell_summary,
      e_details = cell_summary,
      e_stderr = (\<lambda>cmd. [])\<rparr>"

section \<open>Runs and their transcripts\<close>

text \<open>A run starts with an empty transcript and nothing printed.\<close>

definition start :: "'w \<Rightarrow> 'w state" where
  "start w = \<lparr>world = w, trace = [], stdout = []\<rparr>"

fun call_of :: "event \<Rightarrow> call" where
  "call_of (Done c r) = c"
| "call_of (Failed c e) = c"

definition calls :: "'w state \<Rightarrow> call list" where
  "calls s = map call_of (trace s)"

text \<open>The calls that write to the database: the schema comment, and every run of the
  diff engine.\<close>

fun is_comment :: "call \<Rightarrow> bool" where
  "is_comment (CommentOnSchema conn schema j) = True"
| "is_comment c = False"

fun is_run :: "call \<Rightarrow> bool" where
  "is_run (SubprocessRun cmd) = True"
| "is_run c = False"

text \<open>The pair of the program's tests, and a world in which it is initialised: the
  working copy and the \<open>base\<close> schema hold \<open>b\<close>, the \<open>modified\<close> schema holds \<open>m\<close>, the
  server holds \<open>srv\<close>, at version \<^verbatim>\<open>v1\<close> when it equals \<open>b\<close> and at \<^verbatim>\<open>v2\<close> otherwise.\<close>

definition test_conn :: conn_cfg where
  "test_conn =
     \<lparr>driver = ''postgres'', conn_info = [], base = ''mergin_base'',
      modified = ''mergin_main'', mergin_project = ''john/dbsync'',
      sync_file = ''sync.gpkg''\<rparr>"

definition test_config :: config where
  "test_config =
     \<lparr>working_dir = ''/tmp/working_project'', geodiff_exe = ''geodiff'',
      mergin_url = ''https://app.merginmaps.com'', mergin_username = ''john'',
      mergin_password = Some ''secret'', connections = [test_conn]\<rparr>"

definition test_env :: "(int, int) rworld env" where
  "test_env = ref_env cell_engine ''sync.gpkg''"

definition synced :: "int \<Rightarrow> int \<Rightarrow> int \<Rightarrow> (int, int) rworld" where
  "synced b m srv =
     \<lparr>files = [''/tmp/working_project/dbsync/sync.gpkg'' \<mapsto> Gpkg b,
               ''/tmp/working_project/dbsync/.mergin/sync.gpkg'' \<mapsto> Gpkg b],
      dirs = [''/tmp/working_project/dbsync'', ''/tmp/working_project/dbsync/.mergin''],
      schemas = [''mergin_base'' \<mapsto> b, ''mergin_main'' \<mapsto> m],
      comments = (\<lambda>s. JNull)(''mergin_base'' := project_comment ''john/dbsync'' ''v1'' None),
      db_up = True,
      meta = \<lparr>md_name = ''john/dbsync'', md_version = ''v1''\<rparr>,
      edited = no_changes,
      server_version = (if srv = b then ''v1'' else ''v2''),
      server_data = srv,
      upload = Some ''v2'',
      names = [''abcdefgh'', ''ijklmnop'']\<rparr>"

text \<open>The same world with a server that refuses the next upload, and the same engine
  with a diagnostic on stderr at every run.\<close>

definition refusing :: "(int, int) rworld" where
  "refusing = (synced 5 7 5)\<lparr>upload := None\<rparr>"


section \<open>Postconditions\<close>

text \<open>\<open>wp m Q E s\<close>: the run of \<open>m\<close> from \<open>s\<close> ends in a state that satisfies \<open>Q\<close> with its
  result when it returns, \<open>E\<close> with its exception when it raises.\<close>

definition wp ::
  "('w, 'a) prog \<Rightarrow> ('a \<Rightarrow> 'w state \<Rightarrow> bool) \<Rightarrow> (exn \<Rightarrow> 'w state \<Rightarrow> bool) \<Rightarrow> 'w state \<Rightarrow> bool" where
  "wp m Q E s = (case m s of (Inl e, s') \<Rightarrow> E e s' | (Inr x, s') \<Rightarrow> Q x s')"

definition unprinted :: "'w state \<Rightarrow> 'w state \<Rightarrow> bool" where
  "unprinted s s' = (world s' = world s \<and> trace s' = trace s)"

text \<open>The upload of \<open>push\<close> failed with \<open>ex\<close>: then it was the last call of the run,
  the run raised, no schema comment was written, and the diff engine ran three times:
  to compute the changeset, to summarise it and to apply it to the working-copy file.\<close>

definition upload_failed ::
  "'w env \<Rightarrow> config \<Rightarrow> conn_cfg \<Rightarrow> string \<Rightarrow> exn \<Rightarrow> exn + unit \<Rightarrow> 'w state \<Rightarrow> bool" where
  "upload_failed env config cc pn ex r s' =
     (Failed (McPushProject (path_join (working_dir config) pn)) ex \<in> set (trace s') \<longrightarrow>
        last (trace s') = Failed (McPushProject (path_join (working_dir config) pn)) ex
      \<and> r = Inl (case ex of
                   ClientError m \<Rightarrow> DbSyncError (''Mergin Maps client error on push: '' @ m)
                 | _ \<Rightarrow> ex)
      \<and> (\<forall>c \<in> set (calls s'). \<not> is_comment c)
      \<and> filter is_run (calls s') =
          [SubprocessRun [geodiff_exe config, ''diff'', ''--driver'', driver cc, conn_info cc,
             base cc, modified cc,
             path_join (gettempdir env) (pn @ ''-dbsync-push-base2our'')],
           SubprocessRun [geodiff_exe config, ''as-summary'',
             path_join (gettempdir env) (pn @ ''-dbsync-push-base2our''),
             path_join (gettempdir env) ''dbsync-changeset-summary''],
           SubprocessRun [geodiff_exe config, ''apply'', ''--driver'', ''sqlite'', [],
             path_join (path_join (working_dir config) pn) (sync_file cc),
             path_join (gettempdir env) (pn @ ''-dbsync-push-base2our'')]])"







section \<open>Proof rules\<close>

lemma wp_ret [simp]: "wp (ret x) Q E s = Q x s"
  by (simp add: wp_def ret_def)

lemma wp_throw [simp]: "wp (throw e) Q E s = E e s"
  by (simp add: wp_def throw_def)

lemma wp_lift [simp]: "wp (lift r) Q E s = (case r of Inl e \<Rightarrow> E e s | Inr x \<Rightarrow> Q x s)"
  by (simp add: wp_def lift_def split: sum.splits)

lemma wp_print [simp]: "wp (print x) Q E s = Q () (s\<lparr>stdout := stdout s @ [x]\<rparr>)"
  by (simp add: wp_def print_def)

lemma wp_bnd [simp]: "wp (bnd m f) Q E s = wp m (\<lambda>x. wp (f x) Q E) E s"
  by (simp add: wp_def bnd_def split: prod.splits sum.splits)

lemma wp_thn [simp]: "wp (thn m n) Q E s = wp m (\<lambda>x. wp n Q E) E s"
  by (simp add: thn_def)

lemma wp_query [simp]:
  "wp (query c tag f) Q E s =
     (case f (world s) of
        Inl e \<Rightarrow> E e (s\<lparr>trace := trace s @ [Failed c e]\<rparr>)
      | Inr x \<Rightarrow> Q x (s\<lparr>trace := trace s @ [Done c (tag x)]\<rparr>))"
  by (simp add: wp_def query_def logged_def Let_def split: sum.splits)

lemma wp_command [simp]:
  "wp (command c tag f) Q E s =
     (case f (world s) of
        (Inl e, w) \<Rightarrow> E e (s\<lparr>world := w, trace := trace s @ [Failed c e]\<rparr>)
      | (Inr x, w) \<Rightarrow> Q x (s\<lparr>world := w, trace := trace s @ [Done c (tag x)]\<rparr>))"
  by (simp add: wp_def command_def logged_def split: sum.splits prod.splits)

lemma wp_except [simp]:
  "wp (except m h) Q E s =
     wp m Q (\<lambda>e s'. case h e of None \<Rightarrow> E e s' | Some k \<Rightarrow> wp k Q E s') s"
  by (simp add: wp_def except_def split: sum.splits prod.splits option.splits)

lemma wp_run:
  "wp m Q E s \<Longrightarrow> m s = (r, s') \<Longrightarrow> (case r of Inl e \<Rightarrow> E e s' | Inr x \<Rightarrow> Q x s')"
  by (simp add: wp_def split: sum.splits)

text \<open>Printing the summary of a changeset changes nothing but what is printed.\<close>

lemma print_lines_frame:
  "print_lines env items s = (r, s') \<Longrightarrow> world s' = world s \<and> trace s' = trace s"
proof (induction items arbitrary: s)
  case Nil
  then show ?case by (simp add: ret_def)
next
  case (Cons a items)
  then show ?case
    by (auto simp: bnd_def thn_def lift_def print_def split: sum.splits prod.splits)
qed

lemma print_changes_summary_frame:
  "print_changes_summary env summary label s = (r, s') \<Longrightarrow>
     world s' = world s \<and> trace s' = trace s"
  by (auto simp: print_changes_summary_def bnd_def thn_def lift_def print_def
      split: sum.splits prod.splits dest: print_lines_frame)

lemma unprinted_state:
  "unprinted \<lparr>world = w, trace = t, stdout = so\<rparr> s' \<Longrightarrow>
     s' = \<lparr>world = w, trace = t, stdout = stdout s'\<rparr>"
  by (cases s') (simp add: unprinted_def)

text \<open>The rules that step through a program, one call at a time. What was printed is
  forgotten at every step: no property below but the first speaks of it.\<close>

lemma wpI_bnd: "wp m (\<lambda>x. wp (f x) Q E) E s \<Longrightarrow> wp (bnd m f) Q E s"
  by simp

lemma wpI_thn: "wp m (\<lambda>x. wp n Q E) E s \<Longrightarrow> wp (thn m n) Q E s"
  by simp

lemma wpI_ret: "Q x s \<Longrightarrow> wp (ret x) Q E s"
  by simp

lemma wpI_throw: "E e s \<Longrightarrow> wp (throw e) Q E s"
  by simp

lemma wpI_lift:
  "(\<And>x. r = Inr x \<Longrightarrow> Q x s) \<Longrightarrow> (\<And>e. r = Inl e \<Longrightarrow> E e s) \<Longrightarrow> wp (lift r) Q E s"
  by (cases r) simp_all

lemma wpI_print:
  "(\<And>so'. Q () \<lparr>world = w, trace = t, stdout = so'\<rparr>) \<Longrightarrow>
     wp (print x) Q E \<lparr>world = w, trace = t, stdout = so\<rparr>"
  by simp

lemma wpI_query:
  "(\<And>x. f w = Inr x \<Longrightarrow> Q x \<lparr>world = w, trace = t @ [Done c (tag x)], stdout = so\<rparr>) \<Longrightarrow>
   (\<And>e. f w = Inl e \<Longrightarrow> E e \<lparr>world = w, trace = t @ [Failed c e], stdout = so\<rparr>) \<Longrightarrow>
   wp (query c tag f) Q E \<lparr>world = w, trace = t, stdout = so\<rparr>"
  by (cases "f w") simp_all

lemma wpI_command:
  "(\<And>x w'. f w = (Inr x, w') \<Longrightarrow>
      Q x \<lparr>world = w', trace = t @ [Done c (tag x)], stdout = so\<rparr>) \<Longrightarrow>
   (\<And>e w'. f w = (Inl e, w') \<Longrightarrow>
      E e \<lparr>world = w', trace = t @ [Failed c e], stdout = so\<rparr>) \<Longrightarrow>
   wp (command c tag f) Q E \<lparr>world = w, trace = t, stdout = so\<rparr>"
  by (cases "f w"; cases "fst (f w)") simp_all

lemma wpI_if:
  "(b \<Longrightarrow> wp m Q E s) \<Longrightarrow> (\<not> b \<Longrightarrow> wp n Q E s) \<Longrightarrow> wp (if b then m else n) Q E s"
  by simp

lemma wpI_except:
  "wp m Q (\<lambda>e s'. case h e of None \<Rightarrow> E e s' | Some k \<Rightarrow> wp k Q E s') s \<Longrightarrow>
     wp (except m h) Q E s"
  by simp

lemma wpI_run_geodiff:
  "(\<And>res w' so'. subprocess_run env cmd w = (Inr res, w') \<Longrightarrow> returncode res = 0 \<Longrightarrow>
      Q () \<lparr>world = w', trace = t @ [Done (SubprocessRun cmd) (RProc res)], stdout = so'\<rparr>) \<Longrightarrow>
   (\<And>res w' so'. subprocess_run env cmd w = (Inr res, w') \<Longrightarrow> returncode res \<noteq> 0 \<Longrightarrow>
      E (DbSyncError (''geodiff failed!'' @ newline @ str_cmd env cmd))
        \<lparr>world = w', trace = t @ [Done (SubprocessRun cmd) (RProc res)], stdout = so'\<rparr>) \<Longrightarrow>
   (\<And>res w'. subprocess_run env cmd w = (Inr res, w') \<Longrightarrow>
      E (PyError ''UnicodeDecodeError'')
        \<lparr>world = w', trace = t @ [Done (SubprocessRun cmd) (RProc res)], stdout = so\<rparr>) \<Longrightarrow>
   (\<And>e w'. subprocess_run env cmd w = (Inl e, w') \<Longrightarrow>
      E e \<lparr>world = w', trace = t @ [Failed (SubprocessRun cmd) e], stdout = so\<rparr>) \<Longrightarrow>
   wp (run_geodiff env cmd) Q E \<lparr>world = w, trace = t, stdout = so\<rparr>"
  by (cases "subprocess_run env cmd w"; cases "fst (subprocess_run env cmd w)")
     (simp_all add: run_geodiff_def decode_def split: if_splits)

lemma wpI_print_changes_summary:
  assumes "\<And>so'. Q () \<lparr>world = w, trace = t, stdout = so'\<rparr>"
    and "\<And>e so'. E e \<lparr>world = w, trace = t, stdout = so'\<rparr>"
  shows "wp (print_changes_summary env summary label) Q E \<lparr>world = w, trace = t, stdout = so\<rparr>"
proof -
  obtain r s' where run:
    "print_changes_summary env summary label \<lparr>world = w, trace = t, stdout = so\<rparr> = (r, s')"
    by (cases "print_changes_summary env summary label \<lparr>world = w, trace = t, stdout = so\<rparr>")
  from print_changes_summary_frame [OF run]
  have "unprinted \<lparr>world = w, trace = t, stdout = so\<rparr> s'"
    by (simp add: unprinted_def)
  then have s': "s' = \<lparr>world = w, trace = t, stdout = stdout s'\<rparr>"
    by (rule unprinted_state)
  show ?thesis
  proof (cases r)
    case (Inl e)
    have "E e s'" using assms(2) [of e "stdout s'"] s' by simp
    with run Inl show ?thesis by (simp add: wp_def)
  next
    case (Inr u)
    have "Q () s'" using assms(1) [of "stdout s'"] s' by simp
    with run Inr show ?thesis by (simp add: wp_def)
  qed
qed

lemma wpI_print_mergin_changes:
  "(\<And>so'. Q () \<lparr>world = w, trace = t, stdout = so'\<rparr>) \<Longrightarrow>
     wp (print_mergin_changes d) Q E \<lparr>world = w, trace = t, stdout = so\<rparr>"
  by (simp add: wp_def print_mergin_changes_def)

lemmas wp_intros =
  wpI_bnd wpI_thn wpI_ret wpI_throw wpI_lift wpI_print wpI_query wpI_command wpI_if
  wpI_except wpI_run_geodiff wpI_print_changes_summary wpI_print_mergin_changes

lemmas block_defs =
  check_has_working_dir_def check_has_sync_file_def path_exists_def check_schema_exists_def
  connect_def get_project_version_def geodiff_create_changeset_def
  geodiff_apply_changeset_def geodiff_rebase_def geodiff_list_changes_summary_def
  geodiff_list_changes_details_def geodiff_make_copy_def geodiff_create_changeset_dr_def
  compare_datasets_def set_db_project_comment_def get_db_project_comment_def

lemmas prog_defs =
  ret_def throw_def bnd_def thn_def lift_def print_def query_def command_def except_def
  logged_def Let_def

section \<open>The claims\<close>




text \<open>
  C8. For every pull invoked when the server version equals the local version, the
  operation changes nothing: the world (both schemas, the working-copy file, the schema
  comment) is the one it started in.
\<close>

theorem pull_same_version_is_noop:
  assumes "project_name_of cc = Inr pn"
    and "mp_metadata env (path_join (working_dir config) pn) w = Inr md"
    and "mc_get_projects_by_names env [md_name md] w = Inr projects"
    and "map_of projects (md_name md) = Some info"
    and "pi_version info = md_version md"
  shows "world (snd (pull env config cc (start w))) = w"
  using assms
  by (simp add: pull_def start_def prog_defs check_has_working_dir_def
      check_has_sync_file_def path_exists_def client_error_as_def
      split: prod.splits sum.splits if_splits)

theorem pull_same_version_witness:
  "world (snd (pull test_env test_config test_conn (start (synced 5 7 5)))) = synced 5 7 5
   \<and> fst (pull test_env test_config test_conn (start (synced 5 7 5))) = Inr ()"
proof -
  have "world (snd (pull test_env test_config test_conn (start (synced 5 7 5)))) = synced 5 7 5"
    by (rule pull_same_version_is_noop [where pn = "''dbsync''"
          and md = "\<lparr>md_name = ''john/dbsync'', md_version = ''v1''\<rparr>"
          and projects = "[(''john/dbsync'', \<lparr>pi_version = ''v1'', pi_files = [''sync.gpkg'']\<rparr>)]"
          and info = "\<lparr>pi_version = ''v1'', pi_files = [''sync.gpkg'']\<rparr>"]; code_simp)
  moreover have "fst (pull test_env test_config test_conn (start (synced 5 7 5))) = Inr ()"
    by code_simp
  ultimately show ?thesis by simp
qed

lemma push_upload_failed:
  assumes "project_name_of cc = Inr pn"
  shows "wp (push env config cc) (\<lambda>x. upload_failed env config cc pn ex (Inr x))
           (\<lambda>e. upload_failed env config cc pn ex (Inl e)) (start w)"
  using assms
  apply (simp only: push_def Let_def block_defs start_def)
  apply (intro wp_intros)
  apply (simp_all add: upload_failed_def calls_def client_error_as_def split: exn.split)
  done

text \<open>
  C2. For every push in which the upload of the new file version fails, the changeset
  is not applied to the \<open>base\<close> schema again and the schema comment is not written: the
  failed upload is the last call of the run, which raises; before it the diff engine
  computed the changeset, summarised it and applied it to the working-copy file, and
  nothing else.
\<close>

theorem push_upload_failure_leaves_base:
  assumes "push env config cc (start w) = (r, s')"
    and "project_name_of cc = Inr pn"
    and "Failed (McPushProject (path_join (working_dir config) pn)) ex \<in> set (trace s')"
  shows "last (trace s') = Failed (McPushProject (path_join (working_dir config) pn)) ex
       \<and> r = Inl (case ex of
                    ClientError m \<Rightarrow> DbSyncError (''Mergin Maps client error on push: '' @ m)
                  | _ \<Rightarrow> ex)
       \<and> (\<forall>c \<in> set (calls s'). \<not> is_comment c)
       \<and> filter is_run (calls s') =
           [SubprocessRun [geodiff_exe config, ''diff'', ''--driver'', driver cc, conn_info cc,
              base cc, modified cc,
              path_join (gettempdir env) (pn @ ''-dbsync-push-base2our'')],
            SubprocessRun [geodiff_exe config, ''as-summary'',
              path_join (gettempdir env) (pn @ ''-dbsync-push-base2our''),
              path_join (gettempdir env) ''dbsync-changeset-summary''],
            SubprocessRun [geodiff_exe config, ''apply'', ''--driver'', ''sqlite'', [],
              path_join (path_join (working_dir config) pn) (sync_file cc),
              path_join (gettempdir env) (pn @ ''-dbsync-push-base2our'')]]"
  using wp_run [OF push_upload_failed [OF assms(2)] assms(1), of ex] assms(3)
  by (cases r) (simp_all add: upload_failed_def)

theorem push_upload_failure_witness:
  "fst (push test_env test_config test_conn (start refusing))
     = Inl (DbSyncError ''Mergin Maps client error on push: upload refused'')
   \<and> last (trace (snd (push test_env test_config test_conn (start refusing))))
     = Failed (McPushProject ''/tmp/working_project/dbsync'') (ClientError ''upload refused'')
   \<and> schemas (world (snd (push test_env test_config test_conn (start refusing))))
        ''mergin_base'' = Some 5
   \<and> comments (world (snd (push test_env test_config test_conn (start refusing))))
        ''mergin_base'' = project_comment ''john/dbsync'' ''v1'' None"
proof -
  obtain r s' where run: "push test_env test_config test_conn (start refusing) = (r, s')"
    by (cases "push test_env test_config test_conn (start refusing)")
  have name: "project_name_of test_conn = Inr ''dbsync''"
    by code_simp
  have "Failed (McPushProject ''/tmp/working_project/dbsync'') (ClientError ''upload refused'')
          \<in> set (trace (snd (push test_env test_config test_conn (start refusing))))"
    by code_simp
  moreover have "path_join (working_dir test_config) ''dbsync'' = ''/tmp/working_project/dbsync''"
    by code_simp
  ultimately have failed:
    "Failed (McPushProject (path_join (working_dir test_config) ''dbsync''))
       (ClientError ''upload refused'') \<in> set (trace s')"
    using run by simp
  have db: "schemas (world (snd (push test_env test_config test_conn (start refusing))))
        ''mergin_base'' = Some 5
     \<and> comments (world (snd (push test_env test_config test_conn (start refusing))))
        ''mergin_base'' = project_comment ''john/dbsync'' ''v1'' None"
    by code_simp
  from push_upload_failure_leaves_base [OF run name failed] run db
  show ?thesis
    by (simp add: \<open>path_join (working_dir test_config) ''dbsync'' = ''/tmp/working_project/dbsync''\<close>)
qed

text \<open>
  C1. The command \<^verbatim>\<open>init-from-db\<close> is to initialise in the direction from the database.
  The code does not: \<open>dbsync_init\<close> runs \<open>init\<close> from the GeoPackage whatever direction
  it is given, so both commands do the same.
\<close>

theorem dbsync_init_ignores_direction:
  "dbsync_init env config False = dbsync_init env config True"
  by (simp add: dbsync_init_def)




end
